theory Spec2Isabelle
  imports Main
begin

section \<open>Bytes, slices and the store\<close>

text \<open>
  A Go \<open>[]byte\<close> is a window into a backing array: a pointer, a length and a capacity.
  The backing arrays live in a store, a list of byte buffers addressed by their position;
  a slice names its buffer, the window \<open>[low, high)\<close> it shows, and the end of its
  capacity, all as absolute positions in the buffer. \<open>NilSlice\<close> is Go's \<open>nil\<close>.
\<close>

type_synonym store = "string list"

datatype slice = NilSlice | Slice nat nat nat nat

abbreviation CR :: char where "CR \<equiv> CHR 0x0D"
abbreviation LF :: char where "LF \<equiv> CHR 0x0A"
abbreviation TAB :: char where "TAB \<equiv> CHR 0x09"
abbreviation SP :: char where "SP \<equiv> CHR '' ''"

text \<open>The run-time panics of Go that the parser can raise.\<close>

datatype panic =
    IndexOutOfRange int nat
  | SliceBoundsOutOfRange int int nat

fun len :: "slice \<Rightarrow> nat" where
  "len NilSlice = 0"
| "len (Slice b lo hi cp) = hi - lo"

fun cap :: "slice \<Rightarrow> nat" where
  "cap NilSlice = 0"
| "cap (Slice b lo hi cp) = cp - lo"

fun bytes_of :: "store \<Rightarrow> slice \<Rightarrow> string" where
  "bytes_of mem NilSlice = []"
| "bytes_of mem (Slice b lo hi cp) = take (hi - lo) (drop lo (mem ! b))"

text \<open>A slice is valid in a store when its window and capacity lie inside its buffer.\<close>

fun valid_slice :: "store \<Rightarrow> slice \<Rightarrow> bool" where
  "valid_slice mem NilSlice = True"
| "valid_slice mem (Slice b lo hi cp) =
     (b < length mem \<and> lo \<le> hi \<and> hi \<le> cp \<and> cp \<le> length (mem ! b))"

definition bind :: "panic + 'a \<Rightarrow> ('a \<Rightarrow> panic + 'b) \<Rightarrow> panic + 'b" where
  "bind m f = (case m of Inl p \<Rightarrow> Inl p | Inr x \<Rightarrow> f x)"

text \<open>\<open>s[i]\<close>: the index is checked against the length.\<close>

fun index :: "store \<Rightarrow> slice \<Rightarrow> nat \<Rightarrow> panic + char" where
  "index mem NilSlice i = Inl (IndexOutOfRange (int i) 0)"
| "index mem (Slice b lo hi cp) i =
     (if i < hi - lo then Inr ((mem ! b) ! (lo + i))
      else Inl (IndexOutOfRange (int i) (hi - lo)))"

text \<open>
  \<open>s[low:high]\<close>: Go checks \<open>0 \<le> low \<le> high \<le> cap(s)\<close>, the capacity and not the length.
  The bounds are integers: one call in \<open>Parse\<close> passes a parsed \<open>int64\<close> as \<open>high\<close>.
\<close>

fun slice_expr :: "slice \<Rightarrow> int \<Rightarrow> int \<Rightarrow> panic + slice" where
  "slice_expr NilSlice low high =
     (if low = 0 \<and> high = 0 then Inr NilSlice else Inl (SliceBoundsOutOfRange low high 0))"
| "slice_expr (Slice b lo hi cp) low high =
     (if 0 \<le> low \<and> low \<le> high \<and> lo + nat high \<le> cp
      then Inr (Slice b (lo + nat low) (lo + nat high) cp)
      else Inl (SliceBoundsOutOfRange low high (cp - lo)))"

text \<open>\<open>make([]byte, n)\<close>: a new zeroed buffer at the end of the store.\<close>

definition make_bytes :: "store \<Rightarrow> nat \<Rightarrow> store \<times> slice" where
  "make_bytes mem n = (mem @ [replicate n (CHR 0x00)], Slice (length mem) 0 n n)"

text \<open>
  \<open>copy(dst, src)\<close>: writes \<open>min(len(dst), len(src))\<close> bytes at the start of the window of
  \<open>dst\<close>. It is the only operation of the parser that writes bytes into a buffer.
\<close>

fun copy_bytes :: "store \<Rightarrow> slice \<Rightarrow> string \<Rightarrow> store" where
  "copy_bytes mem NilSlice src = mem"
| "copy_bytes mem (Slice b lo hi cp) src =
     (let n = min (hi - lo) (length src) in
      mem[b := take lo (mem ! b) @ take n src @ drop (lo + n) (mem ! b)])"

section \<open>Library functions used by the parser\<close>

text \<open>
  \<open>strconv.ParseInt(s, 10, 0)\<close> of the Go standard library (not part of the repository),
  after its source: an optional sign, then \<open>ParseUint\<close> over decimal digits with the
  64-bit overflow checks. Besides the error it returns a value that the caller can see
  even when the error is set: 0 on a syntax error, the nearest bound on a range error.
  \<open>IntSize\<close> is taken as 64.
\<close>

datatype numError = ErrSyntax | ErrRange

definition maxUint64 :: nat where
  "maxUint64 = 18446744073709551615"

fun ParseUint_loop :: "nat \<Rightarrow> string \<Rightarrow> nat \<times> numError option" where
  "ParseUint_loop n [] = (n, None)"
| "ParseUint_loop n (c # cs) =
     (if 48 \<le> (of_char c :: nat) \<and> (of_char c :: nat) \<le> 57 then
        (let d = (of_char c :: nat) - 48 in
         if n \<ge> maxUint64 div 10 + 1 then (maxUint64, Some ErrRange)
         else if n * 10 + d > maxUint64 then (maxUint64, Some ErrRange)
         else ParseUint_loop (n * 10 + d) cs)
      else (0, Some ErrSyntax))"

text \<open>\<open>1 << 63\<close>, the bound of the signed range.\<close>

definition cutoff :: nat where
  "cutoff = 9223372036854775808"

definition ParseUint :: "string \<Rightarrow> nat \<times> numError option" where
  "ParseUint s = (if s = [] then (0, Some ErrSyntax) else ParseUint_loop 0 s)"

definition ParseInt :: "string \<Rightarrow> int \<times> numError option" where
  "ParseInt s =
     (if s = [] then (0, Some ErrSyntax)
      else
        let neg = (hd s = CHR ''-'');
            s1 = (if hd s = CHR ''+'' \<or> hd s = CHR ''-'' then tl s else s);
            (un, err) = ParseUint s1
        in if err = Some ErrSyntax then (0, err)
           else if \<not> neg \<and> un \<ge> cutoff then (int cutoff - 1, Some ErrRange)
           else if neg \<and> un > cutoff then (- int cutoff, Some ErrRange)
           else (if neg then - int un else int un, None))"

text \<open>
  \<open>bytes.EqualFold\<close> of the Go standard library: bytes below 0x80 are compared directly,
  letters up to ASCII case; from the first position where either side has a byte of 0x80
  or more, the library compares the rest rune by rune under Unicode simple folding. That
  comparison is the parameter \<open>uni\<close>: the Unicode tables are outside this development.
\<close>

fun EqualFold :: "(string \<Rightarrow> string \<Rightarrow> bool) \<Rightarrow> string \<Rightarrow> string \<Rightarrow> bool" where
  "EqualFold uni (sr # s) (tr # t) =
     (if (of_char sr :: nat) \<ge> 128 \<or> (of_char tr :: nat) \<ge> 128 then uni (sr # s) (tr # t)
      else if tr = sr then EqualFold uni s t
      else
        let a = min (of_char sr :: nat) (of_char tr);
            b = max (of_char sr :: nat) (of_char tr)
        in if 65 \<le> a \<and> a \<le> 90 \<and> b = a + 32 then EqualFold uni s t else False)"
| "EqualFold uni [] [] = True"
| "EqualFold uni [] (tr # t) = False"
| "EqualFold uni (sr # s) [] = False"

section \<open>The parser's data\<close>

record header =
  Name :: slice
  Value :: slice

record HTTPParser =
  subscribeHeader :: "slice list"
  subscribeAllHeader :: bool
  Method :: slice
  Path :: slice
  Version :: slice
  Headers :: "header list"
  TotalHeaders :: nat
  host :: slice
  hostRead :: bool
  contentLength :: int
  contentLengthRead :: bool

definition DefaultHeaderSlice :: nat where
  "DefaultHeaderSlice = 4"

text \<open>The zero value of \<open>header\<close>: both fields \<open>nil\<close>.\<close>

definition zero_header :: header where
  "zero_header = \<lparr>Name = NilSlice, Value = NilSlice\<rparr>"

text \<open>
  \<open>NewSizedHTTPParser(size)\<close>. The size is a natural number \<open>n\<close> here: \<open>make\<close> panics on a negative
  one. The fields the composite literal leaves out have their zero values.
\<close>

definition NewSizedHTTPParser :: "nat \<Rightarrow> HTTPParser" where
  "NewSizedHTTPParser n =
     \<lparr>subscribeHeader = [], subscribeAllHeader = True,
      Method = NilSlice, Path = NilSlice, Version = NilSlice,
      Headers = replicate n zero_header, TotalHeaders = n,
      host = NilSlice, hostRead = False,
      contentLength = - 1, contentLengthRead = False\<rparr>"

definition NewHTTPParser :: HTTPParser where
  "NewHTTPParser = NewSizedHTTPParser DefaultHeaderSlice"

text \<open>
  The errors. \<open>errors.Context\<close> of the library \<open>github.com/vektra/errors\<close> (not part of
  the repository) wraps an error with a message; \<open>Cause\<close> gives back the error wrapped,
  the kind of the error.
\<close>

datatype err = ErrBadProto | ErrMissingData | ErrUnsupported | Context err string

fun Cause :: "err \<Rightarrow> err" where
  "Cause (Context e msg) = Cause e"
| "Cause e = e"

datatype pstate =
    eNextHeader | eNextHeaderN | eHeader | eHeaderValueSpace
  | eHeaderValue | eHeaderValueN | eMLHeaderStart | eMLHeaderValue

definition cContentLength :: string where
  "cContentLength = ''Content-Length''"

definition cHost :: string where
  "cHost = ''Host''"

section \<open>addHeader and Reset\<close>

text \<open>\<open>copy(dst, src)\<close> on header tables: the first \<open>min(len(dst), len(src))\<close> entries.\<close>

definition copy_headers :: "header list \<Rightarrow> header list \<Rightarrow> header list" where
  "copy_headers dst src =
     (let n = min (length dst) (length src) in take n src @ drop n dst)"

text \<open>
  \<open>addHeader\<close>: the store into \<open>hp.Headers[headerIndex]\<close> is checked against the length of
  the table; the table grows only when the index stored at is \<open>TotalHeaders - 1\<close>.
\<close>

definition addHeader :: "HTTPParser \<Rightarrow> nat \<Rightarrow> slice \<Rightarrow> slice \<Rightarrow> panic + HTTPParser" where
  "addHeader hp headerIndex headerName headerValue =
     (if headerIndex < length (Headers hp) then
        (let hp1 = hp\<lparr>Headers := (Headers hp)[headerIndex :=
                       \<lparr>Name = headerName, Value = headerValue\<rparr>]\<rparr>
         in if headerIndex + 1 = TotalHeaders hp1 then
              Inr (hp1\<lparr>Headers := copy_headers
                          (replicate (TotalHeaders hp1 + DefaultHeaderSlice) zero_header)
                          (Headers hp1),
                        TotalHeaders := TotalHeaders hp1 + DefaultHeaderSlice\<rparr>)
            else Inr hp1)
      else Inl (IndexOutOfRange (int headerIndex) (length (Headers hp))))"

text \<open>
  \<open>Reset\<close>. Its loop \<open>for _, h := range hp.Headers { h.Name = nil; h.Value = nil }\<close> assigns
  to the loop variable, a copy of each entry: the table itself is not written, so the loop
  has no effect on the parser. The truncation \<open>hp.Headers[:n]\<close> keeps the first \<open>n\<close>
  entries; \<open>TotalHeaders\<close> and \<open>host\<close> are not assigned.
\<close>

definition Reset :: "HTTPParser \<Rightarrow> HTTPParser" where
  "Reset hp =
     (let hp1 = hp\<lparr>hostRead := False, contentLengthRead := False, contentLength := - 1\<rparr>
      in if length (Headers hp1) > length (subscribeHeader hp1) + 1
         then hp1\<lparr>Headers := take (length (subscribeHeader hp1) + 1) (Headers hp1)\<rparr>
         else hp1)"

definition SubscribeAllHeader :: "HTTPParser \<Rightarrow> bool \<Rightarrow> HTTPParser" where
  "SubscribeAllHeader hp sub = hp\<lparr>subscribeAllHeader := sub\<rparr>"

definition SubscribeHeader :: "HTTPParser \<Rightarrow> slice \<Rightarrow> HTTPParser" where
  "SubscribeHeader hp name = hp\<lparr>subscribeHeader := subscribeHeader hp @ [name]\<rparr>"

section \<open>Parse\<close>

text \<open>
  The first two loops of \<open>Parse\<close> (labels \<open>method\<close> and \<open>path\<close>) are the same loop from
  two starting points: the position of the first space or tab at or after \<open>i\<close>, if any.
\<close>

function scanSP :: "store \<Rightarrow> slice \<Rightarrow> nat \<Rightarrow> panic + nat option" where
  "scanSP mem input i =
     (if i < len input then
        bind (index mem input i) (\<lambda>c.
          if c = SP \<or> c = TAB then Inr (Some i) else scanSP mem input (i + 1))
      else Inr None)"
  by pat_completeness auto
termination
  by (relation "measure (\<lambda>(mem, input, i). len input - i)") auto

text \<open>
  The third loop (label \<open>loop\<close>) reads the version up to CR LF or a bare LF. It writes
  \<open>hp.Version\<close> when it meets the CR, before it knows what follows. Its outcomes: the
  offset of the header section, an error returned at once, or the end of the buffer.
\<close>

datatype vresult = VHeaders nat | VError err | VNotOk

function versionLoop ::
  "store \<Rightarrow> slice \<Rightarrow> nat \<Rightarrow> HTTPParser \<Rightarrow> nat \<Rightarrow> bool \<Rightarrow> panic + (HTTPParser \<times> vresult)" where
  "versionLoop mem input version hp i readN =
     (if i < len input then
        bind (index mem input i) (\<lambda>c.
          if \<not> readN then
            (if c = CR then
               bind (slice_expr input (int version) (int i)) (\<lambda>v.
                 versionLoop mem input version (hp\<lparr>Version := v\<rparr>) (i + 1) True)
             else if c = LF then
               bind (slice_expr input (int version) (int i)) (\<lambda>v.
                 Inr (hp\<lparr>Version := v\<rparr>, VHeaders (i + 1)))
             else versionLoop mem input version hp (i + 1) readN)
          else
            (if c \<noteq> LF then
               Inr (hp, VError (Context ErrBadProto ''missing newline in version''))
             else Inr (hp, VHeaders (i + 1))))
      else Inr (hp, VNotOk))"
  by pat_completeness auto
termination
  by (relation "measure (\<lambda>(mem, input, version, hp, i, readN). len input - i)") auto

text \<open>The local variables of the header loop, with the parser and the store.\<close>

record scan =
  scan_hp :: HTTPParser
  scan_mem :: store
  scan_h :: nat
  scan_headerName :: slice
  scan_state :: pstate
  scan_start :: nat

text \<open>One turn of the header loop either goes on to the next byte or returns.\<close>

datatype flow = Continue scan | Return scan nat "err option"

text \<open>
  The range loop over \<open>hp.subscribeHeader\<close>: the first subscribed name equal to the
  header's name stores the header and ends the loop. \<open>b[0]\<close> is read before the names are
  compared.
\<close>

fun subscribeLoop ::
  "store \<Rightarrow> slice \<Rightarrow> nat \<Rightarrow> nat \<Rightarrow> nat \<Rightarrow> slice \<Rightarrow> HTTPParser \<Rightarrow> slice list
     \<Rightarrow> panic + HTTPParser" where
  "subscribeLoop mem input start i h headerName hp [] = Inr hp"
| "subscribeLoop mem input start i h headerName hp (b # bs) =
     bind (index mem headerName 0) (\<lambda>c0.
       bind (index mem b 0) (\<lambda>b0.
         if c0 = b0 then
           (if bytes_of mem headerName = bytes_of mem b then
              bind (slice_expr input (int start) (int i)) (\<lambda>v. addHeader hp h headerName v)
            else subscribeLoop mem input start i h headerName hp bs)
         else subscribeLoop mem input start i h headerName hp bs))"

text \<open>
  The end of a header value (state \<open>eHeaderValue\<close> at CR or LF, the new state already
  set). In the Content-Length branch the statement \<open>i, err := strconv.ParseInt(...)\<close>
  declares a new \<open>i\<close> in the block of the \<open>if\<close>: the value stored by the \<open>addHeader\<close> call
  that follows is \<open>input[start:i]\<close> with the parsed number as \<open>i\<close>, not the loop index.
  \<open>h\<close> is incremented whether or not the header was stored.
\<close>

definition headerDone :: "slice \<Rightarrow> nat \<Rightarrow> scan \<Rightarrow> panic + flow" where
  "headerDone input i s =
     (let mem = scan_mem s; hp = scan_hp s; h = scan_h s;
          headerName = scan_headerName s; start = scan_start s
      in bind (index mem headerName 0) (\<lambda>c0.
           if c0 = CHR ''C'' \<and> bytes_of mem headerName = cContentLength then
             bind (slice_expr input (int start) (int i)) (\<lambda>v.
               let (i', e) = ParseInt (bytes_of mem v);
                   hp1 = (if e = None then hp\<lparr>contentLength := i'\<rparr> else hp);
                   hp2 = hp1\<lparr>contentLengthRead := True\<rparr>
               in bind (slice_expr input (int start) i') (\<lambda>v'.
                    bind (addHeader hp2 h headerName v') (\<lambda>hp3.
                      Inr (Continue (s\<lparr>scan_hp := hp3, scan_h := h + 1\<rparr>)))))
           else if subscribeAllHeader hp then
             bind (slice_expr input (int start) (int i)) (\<lambda>v.
               bind (addHeader hp h headerName v) (\<lambda>hp3.
                 Inr (Continue (s\<lparr>scan_hp := hp3, scan_h := h + 1\<rparr>))))
           else
             bind (subscribeLoop mem input start i h headerName hp (subscribeHeader hp))
               (\<lambda>hp3. Inr (Continue (s\<lparr>scan_hp := hp3, scan_h := h + 1\<rparr>)))))"

text \<open>
  The end of a continuation line (state \<open>eMLHeaderValue\<close> at CR or LF): the value of
  \<open>hp.Headers[h-1]\<close> is replaced by a new buffer holding the old value, a space and the
  continuation. The index \<open>h-1\<close> is checked against the table.
\<close>

definition foldDone :: "slice \<Rightarrow> nat \<Rightarrow> scan \<Rightarrow> panic + flow" where
  "foldDone input i s =
     (let mem = scan_mem s; hp = scan_hp s; h = scan_h s; start = scan_start s
      in if h = 0 \<or> length (Headers hp) \<le> h - 1
         then Inl (IndexOutOfRange (int h - 1) (length (Headers hp)))
         else
           let cur = Value (Headers hp ! (h - 1));
               (mem1, newheader) = make_bytes mem (len cur + 1 + (i - start));
               mem2 = copy_bytes mem1 newheader (bytes_of mem1 cur)
           in bind (slice_expr newheader (int (len cur)) (int (len newheader))) (\<lambda>d1.
                let mem3 = copy_bytes mem2 d1 '' '' in
                bind (slice_expr newheader (int (len cur + 1)) (int (len newheader))) (\<lambda>d2.
                  bind (slice_expr input (int start) (int i)) (\<lambda>v.
                    let mem4 = copy_bytes mem3 d2 (bytes_of mem3 v);
                        hs = Headers hp
                    in Inr (Continue (s\<lparr>scan_mem := mem4,
                          scan_hp := hp\<lparr>Headers :=
                            hs[h - 1 := (hs ! (h - 1))\<lparr>Value := newheader\<rparr>]\<rparr>\<rparr>))))))"

text \<open>One turn of the header loop at index \<open>i\<close>: the \<open>switch state\<close>.\<close>

definition step :: "slice \<Rightarrow> nat \<Rightarrow> scan \<Rightarrow> panic + flow" where
  "step input i s =
     bind (index (scan_mem s) input i) (\<lambda>c.
       case scan_state s of
         eNextHeader \<Rightarrow>
           (if c = CR then Inr (Continue (s\<lparr>scan_state := eNextHeaderN\<rparr>))
            else if c = LF then Inr (Return s (i + 1) None)
            else if c = SP \<or> c = TAB then Inr (Continue (s\<lparr>scan_state := eMLHeaderStart\<rparr>))
            else Inr (Continue (s\<lparr>scan_start := i, scan_state := eHeader\<rparr>)))
       | eNextHeaderN \<Rightarrow>
           (if c \<noteq> LF then Inr (Return s 0 (Some ErrBadProto))
            else Inr (Return s (i + 1) None))
       | eHeader \<Rightarrow>
           (if c = CHR '':'' then
              bind (slice_expr input (int (scan_start s)) (int i)) (\<lambda>n.
                Inr (Continue (s\<lparr>scan_headerName := n, scan_state := eHeaderValueSpace\<rparr>)))
            else Inr (Continue s))
       | eHeaderValueSpace \<Rightarrow>
           (if c = SP \<or> c = TAB then Inr (Continue s)
            else Inr (Continue (s\<lparr>scan_start := i, scan_state := eHeaderValue\<rparr>)))
       | eHeaderValue \<Rightarrow>
           (if c = CR then headerDone input i (s\<lparr>scan_state := eHeaderValueN\<rparr>)
            else if c = LF then headerDone input i (s\<lparr>scan_state := eNextHeader\<rparr>)
            else Inr (Continue s))
       | eHeaderValueN \<Rightarrow>
           (if c \<noteq> LF then Inr (Return s 0 (Some ErrBadProto))
            else Inr (Continue (s\<lparr>scan_state := eNextHeader\<rparr>)))
       | eMLHeaderStart \<Rightarrow>
           (if c = SP \<or> c = TAB then Inr (Continue s)
            else Inr (Continue (s\<lparr>scan_start := i, scan_state := eMLHeaderValue\<rparr>)))
       | eMLHeaderValue \<Rightarrow>
           (if c = CR then foldDone input i (s\<lparr>scan_state := eHeaderValueN\<rparr>)
            else if c = LF then foldDone input i (s\<lparr>scan_state := eNextHeader\<rparr>)
            else Inr (Continue s)))"

text \<open>
  What \<open>Parse\<close> returns: the store, the parser as the call leaves it, the offset and the
  error (\<open>None\<close> is Go's \<open>nil\<close> error).
\<close>

type_synonym result = "store \<times> HTTPParser \<times> nat \<times> err option"

function headerLoop :: "slice \<Rightarrow> nat \<Rightarrow> scan \<Rightarrow> panic + result" where
  "headerLoop input i s =
     (if i < len input then
        bind (step input i s) (\<lambda>f.
          case f of
            Continue s' \<Rightarrow> headerLoop input (i + 1) s'
          | Return s' n e \<Rightarrow> Inr (scan_mem s', scan_hp s', n, e))
      else Inr (scan_mem s, scan_hp s, 0, Some ErrMissingData))"
  by pat_completeness auto
termination
  by (relation "measure (\<lambda>(input, i, s). len input - i)") auto

definition Parse :: "store \<Rightarrow> HTTPParser \<Rightarrow> slice \<Rightarrow> panic + result" where
  "Parse mem hp input =
     bind (scanSP mem input 0) (\<lambda>m.
       case m of
         None \<Rightarrow> Inr (mem, hp, 0, Some ErrMissingData)
       | Some i \<Rightarrow>
           bind (slice_expr input 0 (int i)) (\<lambda>method.
             let hp1 = hp\<lparr>Method := method\<rparr>; path = i + 1 in
             bind (scanSP mem input path) (\<lambda>p.
               case p of
                 None \<Rightarrow> Inr (mem, hp1, 0, Some ErrMissingData)
               | Some j \<Rightarrow>
                   bind (slice_expr input (int path) (int j)) (\<lambda>pth.
                     let hp2 = hp1\<lparr>Path := pth\<rparr>; version = j + 1 in
                     bind (versionLoop mem input version hp2 version False) (\<lambda>(hp3, r).
                       case r of
                         VNotOk \<Rightarrow> Inr (mem, hp3, 0, Some ErrMissingData)
                       | VError e \<Rightarrow> Inr (mem, hp3, 0, Some e)
                       | VHeaders headers \<Rightarrow>
                           headerLoop input headers
                             \<lparr>scan_hp = hp3, scan_mem = mem, scan_h = 0,
                              scan_headerName = NilSlice, scan_state = eNextHeader,
                              scan_start = headers\<rparr>)))))"

section \<open>Lookups and cached fields\<close>

text \<open>The two range loops of \<open>FindHeader\<close>, each returning at its first match.\<close>

fun findEqual :: "store \<Rightarrow> header list \<Rightarrow> string \<Rightarrow> slice option" where
  "findEqual mem [] name = None"
| "findEqual mem (x # hs) name =
     (if bytes_of mem (Name x) = name then Some (Value x) else findEqual mem hs name)"

fun findEqualFold ::
  "(string \<Rightarrow> string \<Rightarrow> bool) \<Rightarrow> store \<Rightarrow> header list \<Rightarrow> string \<Rightarrow> slice option" where
  "findEqualFold uni mem [] name = None"
| "findEqualFold uni mem (x # hs) name =
     (if EqualFold uni (bytes_of mem (Name x)) name then Some (Value x)
      else findEqualFold uni mem hs name)"

definition FindHeader ::
  "(string \<Rightarrow> string \<Rightarrow> bool) \<Rightarrow> store \<Rightarrow> HTTPParser \<Rightarrow> string \<Rightarrow> slice" where
  "FindHeader uni mem hp name =
     (case findEqual mem (Headers hp) name of
        Some v \<Rightarrow> v
      | None \<Rightarrow>
          (case findEqualFold uni mem (Headers hp) name of
             Some v \<Rightarrow> v
           | None \<Rightarrow> NilSlice))"

fun FindAllHeaders ::
  "(string \<Rightarrow> string \<Rightarrow> bool) \<Rightarrow> store \<Rightarrow> header list \<Rightarrow> string \<Rightarrow> slice list" where
  "FindAllHeaders uni mem [] name = []"
| "FindAllHeaders uni mem (x # hs) name =
     (if EqualFold uni (bytes_of mem (Name x)) name
      then Value x # FindAllHeaders uni mem hs name
      else FindAllHeaders uni mem hs name)"

text \<open>\<open>Host\<close> and \<open>ContentLength\<close> return their value and the parser with its cache filled.\<close>

definition Host ::
  "(string \<Rightarrow> string \<Rightarrow> bool) \<Rightarrow> store \<Rightarrow> HTTPParser \<Rightarrow> HTTPParser \<times> slice" where
  "Host uni mem hp =
     (if hostRead hp then (hp, host hp)
      else
        let hp1 = hp\<lparr>hostRead := True\<rparr>;
            hp2 = hp1\<lparr>host := FindHeader uni mem hp1 cHost\<rparr>
        in (hp2, host hp2))"

definition ContentLength ::
  "(string \<Rightarrow> string \<Rightarrow> bool) \<Rightarrow> store \<Rightarrow> HTTPParser \<Rightarrow> HTTPParser \<times> int" where
  "ContentLength uni mem hp =
     (if contentLengthRead hp then (hp, contentLength hp)
      else
        let hdr = FindHeader uni mem hp cContentLength;
            hp1 = (if hdr \<noteq> NilSlice then
                     (let (i, e) = ParseInt (bytes_of mem hdr)
                      in if e = None then hp\<lparr>contentLength := i\<rparr> else hp)
                   else hp);
            hp2 = hp1\<lparr>contentLengthRead := True\<rparr>
        in (hp2, contentLength hp2))"

section \<open>Views and fresh buffers\<close>

text \<open>
  \<open>view_of input s\<close>: the slice \<open>s\<close> is a window of the buffer \<open>input\<close>: it lies in the
  same backing array, between the start and the end of \<open>input\<close>, and has its capacity.
\<close>

fun view_of :: "slice \<Rightarrow> slice \<Rightarrow> bool" where
  "view_of (Slice b lo hi cp) (Slice b' lo' hi' cp') =
     (b' = b \<and> cp' = cp \<and> lo \<le> lo' \<and> lo' \<le> hi' \<and> hi' \<le> hi)"
| "view_of (Slice b lo hi cp) NilSlice = False"
| "view_of NilSlice s = False"

text \<open>\<open>fresh_in mem mem' s\<close>: the buffer of \<open>s\<close> is in the store \<open>mem'\<close> and was not in \<open>mem\<close>.\<close>

fun fresh_in :: "store \<Rightarrow> store \<Rightarrow> slice \<Rightarrow> bool" where
  "fresh_in mem mem' (Slice b lo hi cp) = (length mem \<le> b \<and> b < length mem')"
| "fresh_in mem mem' NilSlice = False"

section \<open>The stages of Parse\<close>

text \<open>
  The body of \<open>Parse\<close> from three points on, named for the proofs: from the header loop,
  from the version loop, and from the loop labelled \<open>path\<close>. \<open>Parse\<close> is their
  composition (lemma \<open>Parse_stages\<close>).
\<close>

definition Parse_headers :: "store \<Rightarrow> HTTPParser \<Rightarrow> slice \<Rightarrow> nat \<Rightarrow> panic + result" where
  "Parse_headers mem hp3 input headers =
     headerLoop input headers
       \<lparr>scan_hp = hp3, scan_mem = mem, scan_h = 0, scan_headerName = NilSlice,
        scan_state = eNextHeader, scan_start = headers\<rparr>"

definition Parse_version :: "store \<Rightarrow> HTTPParser \<Rightarrow> slice \<Rightarrow> nat \<Rightarrow> panic + result" where
  "Parse_version mem hp2 input version =
     bind (versionLoop mem input version hp2 version False) (\<lambda>(hp3, r).
       case r of
         VNotOk \<Rightarrow> Inr (mem, hp3, 0, Some ErrMissingData)
       | VError e \<Rightarrow> Inr (mem, hp3, 0, Some e)
       | VHeaders headers \<Rightarrow> Parse_headers mem hp3 input headers)"

definition Parse_path :: "store \<Rightarrow> HTTPParser \<Rightarrow> slice \<Rightarrow> nat \<Rightarrow> panic + result" where
  "Parse_path mem hp1 input path =
     bind (scanSP mem input path) (\<lambda>p.
       case p of
         None \<Rightarrow> Inr (mem, hp1, 0, Some ErrMissingData)
       | Some j \<Rightarrow>
           bind (slice_expr input (int path) (int j)) (\<lambda>pth.
             Parse_version mem (hp1\<lparr>Path := pth\<rparr>) input (j + 1)))"

section \<open>Evaluation of the parser on concrete buffers\<close>

declare scanSP.simps [simp del] versionLoop.simps [simp del] headerLoop.simps [simp del]

lemmas Parse_eval =
  Parse_def NewHTTPParser_def NewSizedHTTPParser_def bind_def DefaultHeaderSlice_def
  zero_header_def step_def headerDone_def foldDone_def addHeader_def copy_headers_def
  make_bytes_def cContentLength_def cHost_def ParseInt_def ParseUint_def maxUint64_def
  cutoff_def Reset_def SubscribeHeader_def SubscribeAllHeader_def Host_def
  ContentLength_def FindHeader_def Let_def scanSP.simps versionLoop.simps headerLoop.simps

lemma replicate_4 [simp]: "replicate 4 x = [x, x, x, x]"
  by (simp add: numeral_eq_Suc)

lemma replicate_8 [simp]: "replicate 8 x = [x, x, x, x, x, x, x, x]"
  by (simp add: numeral_eq_Suc)

text \<open>
  C6. Parsing \<open>"GET /x HTTP/1.1\r\nHost: a.com\r\n\r\n"\<close> with a new parser succeeds with
  offset 32, the length of the buffer; Method is \<open>GET\<close>, Path is \<open>/x\<close>, Version is
  \<open>HTTP/1.1\<close>, \<open>Host()\<close> is \<open>a.com\<close> and \<open>ContentLength()\<close> is -1, whether it is called
  before or after \<open>Host()\<close>, and whatever the Unicode comparison \<open>uni\<close> does.
\<close>

theorem Parse_get_host_roundtrip:
  "case Parse [''GET /x HTTP/1.1'' @ [CR, LF] @ ''Host: a.com'' @ [CR, LF, CR, LF]]
          NewHTTPParser (Slice 0 0 32 32) of
     Inl p \<Rightarrow> False
   | Inr (mem, hp, n, e) \<Rightarrow>
       n = 32 \<and> e = None \<and>
       bytes_of mem (Method hp) = ''GET'' \<and>
       bytes_of mem (Path hp) = ''/x'' \<and>
       bytes_of mem (Version hp) = ''HTTP/1.1'' \<and>
       bytes_of mem (snd (Host uni mem hp)) = ''a.com'' \<and>
       snd (ContentLength uni mem hp) = - 1 \<and>
       snd (ContentLength uni mem (fst (Host uni mem hp))) = - 1"
  by (simp add: Parse_eval)

text \<open>
  C4. Parsing a head with the header section \<open>"X: a\r\n\tb\r\n\r\n"\<close> with a new parser
  succeeds; the table holds one header, named \<open>X\<close>, followed by empty entries only; its
  value reads \<open>a b\<close> and lies in a buffer that did not exist before the call, while the
  input buffer is as it was.
\<close>

theorem Parse_folded_header:
  "case Parse [''GET / HTTP/1.1'' @ [CR, LF] @ ''X: a'' @ [CR, LF, TAB] @ ''b'' @ [CR, LF, CR, LF]]
          NewHTTPParser (Slice 0 0 28 28) of
     Inl p \<Rightarrow> False
   | Inr (mem, hp, n, e) \<Rightarrow>
       n = 28 \<and> e = None \<and>
       map (\<lambda>h. (bytes_of mem (Name h), bytes_of mem (Value h))) (Headers hp) =
         [(''X'', ''a b''), ([], []), ([], []), ([], [])] \<and>
       tl (Headers hp) = [zero_header, zero_header, zero_header] \<and>
       Value (hd (Headers hp)) = Slice 1 0 3 3 \<and>
       length mem = 2 \<and>
       mem ! 0 = ''GET / HTTP/1.1'' @ [CR, LF] @ ''X: a'' @ [CR, LF, TAB] @ ''b'' @ [CR, LF, CR, LF]"
  by (simp add: Parse_eval)

text \<open>
  C5. On \<open>"POST / HTTP/1.1\r\nContent-Length: 5\r\n\r\nhello"\<close> a new parser does not
  return: at the end of the Content-Length line it evaluates \<open>input[33:5]\<close>, the parsed
  number 5 standing where the loop index 34 was meant, and panics.
\<close>

theorem Parse_content_length_panics:
  "Parse [''POST / HTTP/1.1'' @ [CR, LF] @ ''Content-Length: 5'' @ [CR, LF, CR, LF] @ ''hello'']
     NewHTTPParser (Slice 0 0 43 43) = Inl (SliceBoundsOutOfRange 33 5 43)"
  by (simp add: Parse_eval)

text \<open>
  C2. A stale value survives \<open>Reset\<close>. A new parser parses
  \<open>"GET /x HTTP/1.1\r\nHost: a.com\r\n\r\n"\<close> (buffer 0) and \<open>Host()\<close> gives \<open>a.com\<close>; after
  \<open>Reset\<close> it parses \<open>"GET / HTTP/1.1\r\n\r\n"\<close> (buffer 1), a request with no header at
  all, and \<open>Host()\<close> gives \<open>a.com\<close> again, read from the first buffer.
\<close>

theorem Reset_keeps_stale_host:
  "case Parse [''GET /x HTTP/1.1'' @ [CR, LF] @ ''Host: a.com'' @ [CR, LF, CR, LF],
               ''GET / HTTP/1.1'' @ [CR, LF, CR, LF]]
          NewHTTPParser (Slice 0 0 32 32) of
     Inl p \<Rightarrow> False
   | Inr (mem1, hp1, n1, e1) \<Rightarrow>
       n1 = 32 \<and> e1 = None \<and> bytes_of mem1 (snd (Host uni mem1 hp1)) = ''a.com'' \<and>
       (case Parse mem1 (Reset (fst (Host uni mem1 hp1))) (Slice 1 0 18 18) of
          Inl p \<Rightarrow> False
        | Inr (mem2, hp2, n2, e2) \<Rightarrow>
            n2 = 18 \<and> e2 = None \<and>
            snd (Host uni mem2 hp2) = Slice 0 23 28 32 \<and>
            bytes_of mem2 (snd (Host uni mem2 hp2)) = ''a.com'')"
  by (simp add: Parse_eval)

text \<open>
  C9. Three buffers on which \<open>Parse\<close> indexes the header table out of range: a continuation
  line before any header (\<open>hp.Headers[-1]\<close>); with accept-all off and \<open>Host\<close> subscribed
  (its name in buffer 1), four skipped headers and then \<open>Host\<close> (\<open>hp.Headers[4]\<close> of 4);
  and, after \<open>Reset\<close> has cut the table of a new parser to one entry, a request with two
  headers (\<open>hp.Headers[1]\<close> of 1).
\<close>

theorem Parse_header_table_out_of_range:
  "Parse [''GET / HTTP/1.1'' @ [CR, LF] @ '' x'' @ [CR, LF, CR, LF]]
     NewHTTPParser (Slice 0 0 22 22) = Inl (IndexOutOfRange (- 1) 4) \<and>
   Parse [''GET / HTTP/1.1'' @ [CR, LF] @ ''A: 1'' @ [CR, LF] @ ''B: 2'' @ [CR, LF] @
          ''C: 3'' @ [CR, LF] @ ''D: 4'' @ [CR, LF] @ ''Host: x'' @ [CR, LF, CR, LF], ''Host'']
     (SubscribeHeader (SubscribeAllHeader NewHTTPParser False) (Slice 1 0 4 4))
     (Slice 0 0 51 51) = Inl (IndexOutOfRange 4 4) \<and>
   Parse [''GET / HTTP/1.1'' @ [CR, LF] @ ''A: 1'' @ [CR, LF] @ ''B: 2'' @ [CR, LF, CR, LF]]
     (Reset NewHTTPParser) (Slice 0 0 30 30) = Inl (IndexOutOfRange 1 1)"
  by (simp add: Parse_eval)

text \<open>
  C3. With accept-all off and \<open>Host\<close> subscribed (its name in buffer 1), three skipped
  headers before \<open>Host\<close> make the table of a new parser grow from 4 to 8 entries, with
  \<open>Host\<close> in the fourth; \<open>Host\<close> alone leaves it at 4. A Content-Length header is not
  captured: the call panics on \<open>input[31:5]\<close>.
\<close>

theorem Parse_skipped_headers_count:
  "(case Parse [''GET / HTTP/1.1'' @ [CR, LF] @ ''A: 1'' @ [CR, LF] @ ''B: 2'' @ [CR, LF] @
               ''C: 3'' @ [CR, LF] @ ''Host: x'' @ [CR, LF, CR, LF], ''Host'']
          (SubscribeHeader (SubscribeAllHeader NewHTTPParser False) (Slice 1 0 4 4))
          (Slice 0 0 45 45) of
      Inl p \<Rightarrow> False
    | Inr (mem, hp, n, e) \<Rightarrow>
        n = 45 \<and> e = None \<and> TotalHeaders hp = 8 \<and>
        map (\<lambda>h. (bytes_of mem (Name h), bytes_of mem (Value h))) (Headers hp) =
          [([], []), ([], []), ([], []), (''Host'', ''x''),
           ([], []), ([], []), ([], []), ([], [])]) \<and>
   (case Parse [''GET / HTTP/1.1'' @ [CR, LF] @ ''Host: x'' @ [CR, LF, CR, LF], ''Host'']
          (SubscribeHeader (SubscribeAllHeader NewHTTPParser False) (Slice 1 0 4 4))
          (Slice 0 0 27 27) of
      Inl p \<Rightarrow> False
    | Inr (mem, hp, n, e) \<Rightarrow>
        n = 27 \<and> e = None \<and> TotalHeaders hp = 4 \<and> length (Headers hp) = 4) \<and>
   Parse [''GET / HTTP/1.1'' @ [CR, LF] @ ''Content-Length: 5'' @ [CR, LF, CR, LF], ''Host'']
     (SubscribeHeader (SubscribeAllHeader NewHTTPParser False) (Slice 1 0 4 4))
     (Slice 0 0 37 37) = Inl (SliceBoundsOutOfRange 32 5 37)"
  by (simp add: Parse_eval)

text \<open>
  C1. Two buffers that stop short of the blank line that ends the head, on which a new
  parser does not answer \<open>ErrMissingData\<close> but panics: \<open>"GET / HTTP/1.1\r\n x\r\n"\<close>, at
  the end of the continuation line (\<open>hp.Headers[-1]\<close>), and
  \<open>"POST / HTTP/1.1\r\nContent-Length: 5\r\n"\<close>, at the end of the Content-Length line
  (\<open>input[33:5]\<close>).
\<close>

theorem Parse_incomplete_head_panics:
  "Parse [''GET / HTTP/1.1'' @ [CR, LF] @ '' x'' @ [CR, LF]]
     NewHTTPParser (Slice 0 0 20 20) = Inl (IndexOutOfRange (- 1) 4) \<and>
   Parse [''POST / HTTP/1.1'' @ [CR, LF] @ ''Content-Length: 5'' @ [CR, LF]]
     NewHTTPParser (Slice 0 0 36 36) = Inl (SliceBoundsOutOfRange 33 5 36)"
  by (simp add: Parse_eval)

text \<open>
  C7. \<open>"GET / HTTP/1.1\rX"\<close> gives the error \<open>ErrBadProto\<close> wrapped with a context message,
  with offset 0. When the CR that is not followed by LF ends a Content-Length line, as in
  \<open>"GET / HTTP/1.1\r\nContent-Length: 5\rX"\<close>, or a continuation line with no header
  before it, as in \<open>"GET / HTTP/1.1\r\n x\rX"\<close>, the parser panics at the CR and never
  looks at the byte after it.
\<close>

theorem Parse_cr_without_lf:
  "(case Parse [''GET / HTTP/1.1'' @ [CR] @ ''X''] NewHTTPParser (Slice 0 0 16 16) of
      Inl p \<Rightarrow> False
    | Inr (mem, hp, n, e) \<Rightarrow>
        n = 0 \<and> e = Some (Context ErrBadProto ''missing newline in version'') \<and>
        map_option Cause e = Some ErrBadProto) \<and>
   Parse [''GET / HTTP/1.1'' @ [CR, LF] @ ''Content-Length: 5'' @ [CR] @ ''X'']
     NewHTTPParser (Slice 0 0 35 35) = Inl (SliceBoundsOutOfRange 32 5 35) \<and>
   Parse [''GET / HTTP/1.1'' @ [CR, LF] @ '' x'' @ [CR] @ ''X'']
     NewHTTPParser (Slice 0 0 20 20) = Inl (IndexOutOfRange (- 1) 4)"
  by (simp add: Parse_eval)

section \<open>FindHeader\<close>

lemma findEqual_find:
  "findEqual mem hs name = map_option Value (find (\<lambda>h. bytes_of mem (Name h) = name) hs)"
  by (induction hs) simp_all

lemma findEqualFold_find:
  "findEqualFold uni mem hs name =
     map_option Value (find (\<lambda>h. EqualFold uni (bytes_of mem (Name h)) name) hs)"
  by (induction hs) simp_all

text \<open>
  C8. \<open>FindHeader\<close> returns the value of the first entry of the table whose name is
  \<open>name\<close> byte for byte; if there is none, the value of the first entry whose name equals
  \<open>name\<close> under \<open>EqualFold\<close>; if there is none either, \<open>nil\<close>. \<open>Host\<close> and \<open>host\<close> are equal
  under \<open>EqualFold\<close>, and in the table left by parsing
  \<open>"GET /x HTTP/1.1\r\nHost: a.com\r\n\r\n"\<close> the lookup of \<open>host\<close> gives the value of the
  header stored as \<open>Host\<close>.
\<close>

theorem FindHeader_two_pass:
  "FindHeader uni mem hp name =
     (case find (\<lambda>h. bytes_of mem (Name h) = name) (Headers hp) of
        Some h \<Rightarrow> Value h
      | None \<Rightarrow>
          (case find (\<lambda>h. EqualFold uni (bytes_of mem (Name h)) name) (Headers hp) of
             Some h \<Rightarrow> Value h
           | None \<Rightarrow> NilSlice)) \<and>
   EqualFold uni ''Host'' ''host'' \<and>
   (case Parse [''GET /x HTTP/1.1'' @ [CR, LF] @ ''Host: a.com'' @ [CR, LF, CR, LF]]
           NewHTTPParser (Slice 0 0 32 32) of
      Inl p \<Rightarrow> False
    | Inr (mem', hp', n, e) \<Rightarrow>
        bytes_of mem' (Name (hd (Headers hp'))) = ''Host'' \<and>
        FindHeader uni mem' hp' ''host'' = Value (hd (Headers hp')) \<and>
        bytes_of mem' (FindHeader uni mem' hp' ''host'') = ''a.com'')"
proof (intro conjI)
  show "FindHeader uni mem hp name =
     (case find (\<lambda>h. bytes_of mem (Name h) = name) (Headers hp) of
        Some h \<Rightarrow> Value h
      | None \<Rightarrow>
          (case find (\<lambda>h. EqualFold uni (bytes_of mem (Name h)) name) (Headers hp) of
             Some h \<Rightarrow> Value h
           | None \<Rightarrow> NilSlice))"
    by (simp add: FindHeader_def findEqual_find findEqualFold_find split: option.splits)
  show "EqualFold uni ''Host'' ''host''"
    by simp
  show "case Parse [''GET /x HTTP/1.1'' @ [CR, LF] @ ''Host: a.com'' @ [CR, LF, CR, LF]]
           NewHTTPParser (Slice 0 0 32 32) of
      Inl p \<Rightarrow> False
    | Inr (mem', hp', n, e) \<Rightarrow>
        bytes_of mem' (Name (hd (Headers hp'))) = ''Host'' \<and>
        FindHeader uni mem' hp' ''host'' = Value (hd (Headers hp')) \<and>
        bytes_of mem' (FindHeader uni mem' hp' ''host'') = ''a.com''"
    by (simp add: Parse_eval)
qed

section \<open>Parse writes only what it allocates\<close>

lemma bind_Inr_iff: "bind m f = Inr y \<longleftrightarrow> (\<exists>x. m = Inr x \<and> f x = Inr y)"
  by (cases m) (simp_all add: bind_def)

lemma slice_expr_same_buffer:
  assumes "slice_expr (Slice b lo hi cp) l h = Inr d"
  shows "\<exists>lo' hi'. d = Slice b lo' hi' cp"
  using assms by (auto split: if_splits)

lemma length_copy_bytes [simp]: "length (copy_bytes mem d src) = length mem"
  by (cases d) (simp_all add: Let_def)

lemma take_copy_bytes:
  assumes "d = Slice b lo hi cp" and "n \<le> b"
  shows "take n (copy_bytes mem d src) = take n mem"
  using assms by (simp add: Let_def)

lemma add_step_store:
  assumes "bind (addHeader hp2 h n v)
             (\<lambda>hp3. Inr (Continue (s\<lparr>scan_hp := hp3, scan_h := h'\<rparr>))) = Inr f"
  shows "\<exists>s'. f = Continue s' \<and> scan_mem s' = scan_mem s"
  using assms by (auto simp: bind_Inr_iff)

lemma headerDone_store:
  assumes "headerDone input i s = Inr f"
  shows "\<exists>s'. f = Continue s' \<and> scan_mem s' = scan_mem s"
proof -
  let ?mem = "scan_mem s" and ?hp = "scan_hp s" and ?name = "scan_headerName s"
  from assms obtain c0 where
    body: "(if c0 = CHR ''C'' \<and> bytes_of ?mem ?name = cContentLength then
             bind (slice_expr input (int (scan_start s)) (int i)) (\<lambda>v.
               let (i', e) = ParseInt (bytes_of ?mem v);
                   hp1 = (if e = None then ?hp\<lparr>contentLength := i'\<rparr> else ?hp);
                   hp2 = hp1\<lparr>contentLengthRead := True\<rparr>
               in bind (slice_expr input (int (scan_start s)) i') (\<lambda>v'.
                    bind (addHeader hp2 (scan_h s) ?name v') (\<lambda>hp3.
                      Inr (Continue (s\<lparr>scan_hp := hp3, scan_h := scan_h s + 1\<rparr>)))))
           else if subscribeAllHeader ?hp then
             bind (slice_expr input (int (scan_start s)) (int i)) (\<lambda>v.
               bind (addHeader ?hp (scan_h s) ?name v) (\<lambda>hp3.
                 Inr (Continue (s\<lparr>scan_hp := hp3, scan_h := scan_h s + 1\<rparr>))))
           else
             bind (subscribeLoop ?mem input (scan_start s) i (scan_h s) ?name ?hp
                     (subscribeHeader ?hp))
               (\<lambda>hp3. Inr (Continue (s\<lparr>scan_hp := hp3, scan_h := scan_h s + 1\<rparr>)))) = Inr f"
    unfolding headerDone_def Let_def bind_Inr_iff by blast
  consider (cl) "c0 = CHR ''C'' \<and> bytes_of ?mem ?name = cContentLength"
    | (all) "\<not> (c0 = CHR ''C'' \<and> bytes_of ?mem ?name = cContentLength)" "subscribeAllHeader ?hp"
    | (sub) "\<not> (c0 = CHR ''C'' \<and> bytes_of ?mem ?name = cContentLength)" "\<not> subscribeAllHeader ?hp"
    by blast
  then show ?thesis
  proof cases
    case cl
    with body obtain v where
      rest: "(let (i', e) = ParseInt (bytes_of ?mem v);
                  hp1 = (if e = None then ?hp\<lparr>contentLength := i'\<rparr> else ?hp);
                  hp2 = hp1\<lparr>contentLengthRead := True\<rparr>
              in bind (slice_expr input (int (scan_start s)) i') (\<lambda>v'.
                   bind (addHeader hp2 (scan_h s) ?name v') (\<lambda>hp3.
                     Inr (Continue (s\<lparr>scan_hp := hp3, scan_h := scan_h s + 1\<rparr>))))) = Inr f"
      by (auto simp: bind_Inr_iff)
    obtain i' e where pe: "ParseInt (bytes_of ?mem v) = (i', e)"
      by (cases "ParseInt (bytes_of ?mem v)")
    define hp2 where
      "hp2 = (if e = None then ?hp\<lparr>contentLength := i'\<rparr> else ?hp)\<lparr>contentLengthRead := True\<rparr>"
    from rest pe obtain v' where
      "bind (addHeader hp2 (scan_h s) ?name v') (\<lambda>hp3.
         Inr (Continue (s\<lparr>scan_hp := hp3, scan_h := scan_h s + 1\<rparr>))) = Inr f"
      by (auto simp: bind_Inr_iff Let_def hp2_def)
    then show ?thesis
      by (rule add_step_store)
  next
    case all
    with body obtain v where
      "bind (addHeader ?hp (scan_h s) ?name v) (\<lambda>hp3.
         Inr (Continue (s\<lparr>scan_hp := hp3, scan_h := scan_h s + 1\<rparr>))) = Inr f"
      by (auto simp: bind_Inr_iff)
    then show ?thesis
      by (rule add_step_store)
  next
    case sub
    with body show ?thesis
      by (auto simp: bind_Inr_iff)
  qed
qed

lemma foldDone_store:
  assumes "foldDone input i s = Inr f" and "take (length mem0) (scan_mem s) = mem0"
  shows "\<exists>s'. f = Continue s' \<and> take (length mem0) (scan_mem s') = mem0"
proof -
  let ?mem = "scan_mem s" and ?hp = "scan_hp s" and ?h = "scan_h s"
  let ?hs = "Headers ?hp"
  let ?cur = "Value (?hs ! (?h - 1))"
  let ?n = "len ?cur + 1 + (i - scan_start s)"
  let ?new = "Slice (length ?mem) 0 ?n ?n"
  let ?mem1 = "?mem @ [replicate ?n (CHR 0x00)]"
  from assms(1) have h: "?h \<noteq> 0" "?h - 1 < length ?hs"
    by (auto simp: foldDone_def Let_def split: if_splits)
  from assms(1) h obtain d1 d2 v where
    d1: "slice_expr ?new (int (len ?cur)) (int (len ?new)) = Inr d1" and
    d2: "slice_expr ?new (int (len ?cur + 1)) (int (len ?new)) = Inr d2" and
    f: "f = Continue (s\<lparr>scan_mem :=
              copy_bytes (copy_bytes (copy_bytes ?mem1 ?new (bytes_of ?mem1 ?cur)) d1 '' '') d2
                (bytes_of (copy_bytes (copy_bytes ?mem1 ?new (bytes_of ?mem1 ?cur)) d1 '' '') v),
            scan_hp := ?hp\<lparr>Headers := ?hs[?h - 1 := (?hs ! (?h - 1))\<lparr>Value := ?new\<rparr>]\<rparr>\<rparr>)"
    by (auto simp: foldDone_def Let_def make_bytes_def bind_Inr_iff
          simp del: slice_expr.simps copy_bytes.simps split: if_splits)
  define mem4 where
    "mem4 = copy_bytes (copy_bytes (copy_bytes ?mem1 ?new (bytes_of ?mem1 ?cur)) d1 '' '') d2
              (bytes_of (copy_bytes (copy_bytes ?mem1 ?new (bytes_of ?mem1 ?cur)) d1 '' '') v)"
  from assms(2) have le: "length mem0 \<le> length ?mem"
    by (metis length_take min.cobounded1)
  from slice_expr_same_buffer [OF d1] obtain l1 h1 where
    d1': "d1 = Slice (length ?mem) l1 h1 ?n" by blast
  from slice_expr_same_buffer [OF d2] obtain l2 h2 where
    d2': "d2 = Slice (length ?mem) l2 h2 ?n" by blast
  have "take (length mem0) mem4 = take (length mem0) ?mem1"
    unfolding mem4_def using le
    by (simp add: take_copy_bytes [OF d2'] take_copy_bytes [OF d1']
        take_copy_bytes [OF refl] del: copy_bytes.simps)
  with assms(2) le have "take (length mem0) mem4 = mem0"
    by simp
  with f show ?thesis
    unfolding mem4_def by simp
qed

lemma step_store:
  assumes "step input i s = Inr f" and "take (length mem0) (scan_mem s) = mem0"
  shows "(\<exists>s'. f = Continue s' \<and> take (length mem0) (scan_mem s') = mem0) \<or>
         (\<exists>n e. f = Return s n e)"
proof (cases "scan_state s")
  case eHeaderValue
  with assms show ?thesis
    using headerDone_store [of input i "s\<lparr>scan_state := eHeaderValueN\<rparr>" f]
      headerDone_store [of input i "s\<lparr>scan_state := eNextHeader\<rparr>" f]
    by (auto simp: step_def bind_Inr_iff split: if_splits)
next
  case eMLHeaderValue
  with assms show ?thesis
    using foldDone_store [of input i "s\<lparr>scan_state := eHeaderValueN\<rparr>" f mem0]
      foldDone_store [of input i "s\<lparr>scan_state := eNextHeader\<rparr>" f mem0]
    by (auto simp: step_def bind_Inr_iff split: if_splits)
qed (use assms in \<open>auto simp: step_def bind_Inr_iff split: if_splits\<close>)

lemma headerLoop_store:
  assumes "headerLoop input i s = Inr (mem', hp', n, e)"
    and "take (length mem0) (scan_mem s) = mem0"
  shows "take (length mem0) mem' = mem0"
  using assms
proof (induction input i s rule: headerLoop.induct)
  case (1 input i s)
  show ?case
  proof (cases "i < len input")
    case False
    with "1.prems" show ?thesis
      by (auto simp: headerLoop.simps [of input i s])
  next
    case True
    from "1.prems"(1) have
      "bind (step input i s) (\<lambda>f.
         case f of Continue s' \<Rightarrow> headerLoop input (i + 1) s'
         | Return s' n e \<Rightarrow> Inr (scan_mem s', scan_hp s', n, e)) = Inr (mem', hp', n, e)"
      by (subst (asm) headerLoop.simps) (simp only: True if_True)
    then obtain f where
      f: "step input i s = Inr f" and
      rest: "(case f of Continue s' \<Rightarrow> headerLoop input (i + 1) s'
              | Return s' n e \<Rightarrow> Inr (scan_mem s', scan_hp s', n, e)) = Inr (mem', hp', n, e)"
      unfolding bind_Inr_iff by blast
    from step_store [OF f "1.prems"(2)] show ?thesis
    proof (elim disjE exE conjE)
      fix s'
      assume s': "f = Continue s'" "take (length mem0) (scan_mem s') = mem0"
      with rest have "headerLoop input (i + 1) s' = Inr (mem', hp', n, e)"
        by (simp only: flow.case)
      from "1.IH" [OF True this s'(2)] show ?thesis .
    next
      fix n' e'
      assume "f = Return s n' e'"
      with rest "1.prems"(2) show ?thesis
        by auto
    qed
  qed
qed

lemma Parse_stages:
  "Parse mem hp input =
     bind (scanSP mem input 0) (\<lambda>m.
       case m of
         None \<Rightarrow> Inr (mem, hp, 0, Some ErrMissingData)
       | Some i \<Rightarrow>
           bind (slice_expr input 0 (int i)) (\<lambda>mth.
             Parse_path mem (hp\<lparr>Method := mth\<rparr>) input (i + 1)))"
  unfolding Parse_def Parse_path_def Parse_version_def Parse_headers_def Let_def
  by (rule refl)

lemma Parse_headers_store:
  assumes "Parse_headers mem hp3 input k = Inr (mem', hp', n, e)"
  shows "take (length mem) mem' = mem"
  by (rule headerLoop_store [OF assms [unfolded Parse_headers_def]]) simp

lemma Parse_version_store:
  assumes "Parse_version mem hp2 input version = Inr (mem', hp', n, e)"
  shows "take (length mem) mem' = mem"
proof -
  from assms obtain hp3 r where
    rest: "(case r of
              VNotOk \<Rightarrow> Inr (mem, hp3, 0, Some ErrMissingData)
            | VError e \<Rightarrow> Inr (mem, hp3, 0, Some e)
            | VHeaders headers \<Rightarrow> Parse_headers mem hp3 input headers)
           = Inr (mem', hp', n, e)"
    by (auto simp: Parse_version_def bind_Inr_iff)
  then show ?thesis
    by (cases r) (auto dest: Parse_headers_store)
qed

lemma Parse_path_store:
  assumes "Parse_path mem hp1 input path = Inr (mem', hp', n, e)"
  shows "take (length mem) mem' = mem"
proof -
  from assms obtain p where
    rest: "(case p of
              None \<Rightarrow> Inr (mem, hp1, 0, Some ErrMissingData)
            | Some j \<Rightarrow>
                bind (slice_expr input (int path) (int j)) (\<lambda>pth.
                  Parse_version mem (hp1\<lparr>Path := pth\<rparr>) input (j + 1)))
           = Inr (mem', hp', n, e)"
    by (auto simp: Parse_path_def bind_Inr_iff)
  then show ?thesis
    by (cases p) (auto simp: bind_Inr_iff dest: Parse_version_store)
qed

text \<open>
  Whenever \<open>Parse\<close> returns, every buffer that was in the store before the call is as it
  was, so the input reads as before: the only buffers written are those the call
  allocates.
\<close>

lemma Parse_store_frame:
  assumes "Parse mem hp input = Inr (mem', hp', n, e)"
  shows "take (length mem) mem' = mem"
proof -
  from assms obtain m where
    rest: "(case m of
              None \<Rightarrow> Inr (mem, hp, 0, Some ErrMissingData)
            | Some i \<Rightarrow>
                bind (slice_expr input 0 (int i)) (\<lambda>mth.
                  Parse_path mem (hp\<lparr>Method := mth\<rparr>) input (i + 1)))
           = Inr (mem', hp', n, e)"
    by (auto simp: Parse_stages bind_Inr_iff)
  then show ?thesis
    by (cases m) (auto simp: bind_Inr_iff dest: Parse_path_store)
qed

lemma Parse_input_unchanged:
  assumes "Parse mem hp input = Inr (mem', hp', n, e)" and "valid_slice mem input"
  shows "bytes_of mem' input = bytes_of mem input"
proof (cases input)
  case NilSlice
  then show ?thesis by simp
next
  case (Slice b lo hi cp)
  with assms(2) have "b < length mem"
    by simp
  then have "mem' ! b = mem ! b"
    by (metis Parse_store_frame [OF assms(1)] nth_take)
  with Slice show ?thesis
    by simp
qed

text \<open>
  C10. The buffer \<open>"GET / HTTP/1.1\r\nContent-Length: 40\r\n\r\n"\<close> is passed as the first
  38 bytes of an array of 48 bytes. A new parser succeeds with offset 38 and leaves the
  array as it was, but the value it stores for Content-Length is \<open>input[32:40]\<close>, the
  parsed number 40 standing where the loop index 34 was meant: a slice that ends two
  bytes past the end of the input. It is not a view of the input and not a new buffer.
  The method and the header's name are views of the input.
\<close>

theorem Parse_stores_value_past_input:
  "case Parse [''GET / HTTP/1.1'' @ [CR, LF] @ ''Content-Length: 40'' @ [CR, LF, CR, LF] @
               ''0123456789'']
          NewHTTPParser (Slice 0 0 38 48) of
     Inl p \<Rightarrow> False
   | Inr (mem, hp, n, e) \<Rightarrow>
       n = 38 \<and> e = None \<and>
       mem = [''GET / HTTP/1.1'' @ [CR, LF] @ ''Content-Length: 40'' @ [CR, LF, CR, LF] @
              ''0123456789''] \<and>
       bytes_of mem (Name (hd (Headers hp))) = ''Content-Length'' \<and>
       Value (hd (Headers hp)) = Slice 0 32 40 48 \<and>
       bytes_of mem (Value (hd (Headers hp))) = ''40'' @ [CR, LF, CR, LF] @ ''01'' \<and>
       \<not> view_of (Slice 0 0 38 48) (Value (hd (Headers hp))) \<and>
       \<not> fresh_in
            [''GET / HTTP/1.1'' @ [CR, LF] @ ''Content-Length: 40'' @ [CR, LF, CR, LF] @
             ''0123456789'']
            mem (Value (hd (Headers hp))) \<and>
       view_of (Slice 0 0 38 48) (Method hp) \<and>
       view_of (Slice 0 0 38 48) (Name (hd (Headers hp)))"
  by (simp add: Parse_eval)

end
